theory Spec2Isabelle
  imports Complex_Main
begin

section \<open>Data model of \<open>first.py\<close>\<close>

text \<open>
  Prices and capital are Python floats (numpy float64 once read from the frame); they are
  modelled as \<^typ>\<open>real\<close>, so rounding of the floating-point operations is idealised
  away. An index label of the data frame is a time stamp, modelled as the number of
  seconds on the wall clock since some epoch; \<open>Timestamp.time()\<close> is then the remainder
  modulo one day.
\<close>

type_synonym timestamp = int

definition time_of :: "timestamp \<Rightarrow> int" where
  "time_of t = t mod 86400"

text \<open>\<open>pd.Timestamp("09:35:00").time()\<close>\<close>

definition anchor_time :: int where
  "anchor_time = 9 * 3600 + 35 * 60"

text \<open>The dataclass \<open>Trade\<close>.\<close>

record Trade =
  entry_price :: real
  exit_price :: real
  result :: string
  position_size :: int
  entry_time :: timestamp
  exit_time :: timestamp

text \<open>One row of the data frame: \<open>name\<close> is its index label.\<close>

record Candle =
  name :: timestamp
  Open :: real
  High :: real
  Low :: real
  Close :: real

text \<open>The attributes of an \<open>ORBStrategy\<close> object.\<close>

record ORBStrategy =
  symbol :: string
  initial_capital :: real
  risk_percent :: real
  capital :: real
  position :: int
  trades :: "Trade list"

text \<open>
  The local variables of \<open>backtest\<close> that live across iterations of its loop. A local
  that has not been assigned yet is \<open>None\<close>; reading it raises \<open>UnboundLocalError\<close>.
\<close>

record frame =
  v_entry_price :: "real option"
  v_stop_loss :: "real option"
  v_profit_target :: "real option"
  v_position_size :: "int option"
  v_entry_time :: "timestamp option"

definition unbound :: frame where
  "unbound = \<lparr>v_entry_price = None, v_stop_loss = None, v_profit_target = None,
     v_position_size = None, v_entry_time = None\<rparr>"

text \<open>
  The exceptions the engine can raise. \<open>SizingError\<close> stands for the failure of
  \<open>int(... / risk)\<close> when \<open>risk\<close> is zero: \<open>ZeroDivisionError\<close> on Python floats;
  on numpy floats the quotient is \<open>inf\<close> or \<open>nan\<close> and \<open>int\<close> raises \<open>OverflowError\<close>
  or \<open>ValueError\<close>.
\<close>

datatype error = SizingError | UnboundLocalError

section \<open>The engine\<close>

text \<open>\<open>ORBStrategy.__init__\<close>: no check of its arguments.\<close>

definition ORBStrategy_init :: "string \<Rightarrow> real \<Rightarrow> real \<Rightarrow> ORBStrategy" where
  "ORBStrategy_init ticker init_cap risk_pct =
     \<lparr>symbol = ticker, initial_capital = init_cap, risk_percent = risk_pct,
      capital = init_cap, position = 0, trades = []\<rparr>"

text \<open>Python's \<open>int(x)\<close> on a float: truncation toward zero.\<close>

definition py_int :: "real \<Rightarrow> int" where
  "py_int x = (if 0 \<le> x then \<lfloor>x\<rfloor> else \<lceil>x\<rceil>)"

definition calculate_position_size :: "ORBStrategy \<Rightarrow> real \<Rightarrow> real \<Rightarrow> error + int" where
  "calculate_position_size self entry stop =
     (let risk = \<bar>entry - stop\<bar>
      in if risk = 0 then Inl SizingError
         else Inr (py_int ((capital self * risk_percent self) / risk)))"

text \<open>\<open>_close_trade\<close>: append the trade, book the profit or loss, go flat.\<close>

definition close_trade ::
  "ORBStrategy \<Rightarrow> real \<Rightarrow> string \<Rightarrow> int \<Rightarrow> real \<Rightarrow> timestamp \<Rightarrow> timestamp \<Rightarrow> ORBStrategy" where
  "close_trade self exit_p res psize entry_p entry_t exit_t =
     (let trade = \<lparr>entry_price = entry_p, exit_price = exit_p, result = res,
                    position_size = psize, entry_time = entry_t, exit_time = exit_t\<rparr>;
          pnl = (exit_p - entry_p) * real_of_int psize * real_of_int (position self)
      in self\<lparr>capital := capital self + pnl, position := 0,
              trades := trades self @ [trade]\<rparr>)"

text \<open>\<open>process_trade\<close>: the returned flag says whether the position was closed.\<close>

definition process_trade ::
  "ORBStrategy \<Rightarrow> Candle \<Rightarrow> real \<Rightarrow> real \<Rightarrow> real \<Rightarrow> int \<Rightarrow> timestamp \<Rightarrow> bool \<times> ORBStrategy" where
  "process_trade self current_candle entry stop target psize entry_t =
     (if position self = 1 then
        (if Low current_candle \<le> stop then
           (True, close_trade self stop ''Loss'' psize entry entry_t (name current_candle))
         else if High current_candle \<ge> target then
           (True, close_trade self target ''Profit'' psize entry entry_t (name current_candle))
         else (False, self))
      else if position self = - 1 then
        (if High current_candle \<ge> stop then
           (True, close_trade self stop ''Loss'' psize entry entry_t (name current_candle))
         else if Low current_candle \<le> target then
           (True, close_trade self target ''Profit'' psize entry entry_t (name current_candle))
         else (False, self))
      else (False, self))"

text \<open>
  The first half of the loop body of \<open>backtest\<close> (the check for 09:35 and what it
  guards). The sizer may raise after the locals have been assigned; the exception
  leaves \<open>backtest\<close>, so the locals are lost with it.
\<close>

definition backtest_signal ::
  "ORBStrategy \<Rightarrow> frame \<Rightarrow> Candle \<Rightarrow> Candle \<Rightarrow> error + (ORBStrategy \<times> frame)" where
  "backtest_signal self fr previous_candle current_candle =
     (if time_of (name current_candle) = anchor_time then
        (case
           (if Close previous_candle > Open previous_candle then
              (let entry = Open current_candle;
                   stop = Low previous_candle;
                   risk = entry - stop;
                   target = entry + (risk * 10)
               in case calculate_position_size self entry stop of
                    Inl e \<Rightarrow> Inl e
                  | Inr psize \<Rightarrow>
                      Inr (self\<lparr>position := 1\<rparr>,
                           fr\<lparr>v_entry_price := Some entry, v_stop_loss := Some stop,
                              v_profit_target := Some target, v_position_size := Some psize\<rparr>))
            else if Close previous_candle < Open previous_candle then
              (let entry = Open current_candle;
                   stop = High previous_candle;
                   risk = stop - entry;
                   target = entry - (risk * 10)
               in case calculate_position_size self entry stop of
                    Inl e \<Rightarrow> Inl e
                  | Inr psize \<Rightarrow>
                      Inr (self\<lparr>position := - 1\<rparr>,
                           fr\<lparr>v_entry_price := Some entry, v_stop_loss := Some stop,
                              v_profit_target := Some target, v_position_size := Some psize\<rparr>))
            else Inr (self, fr))
         of
           Inl e \<Rightarrow> Inl e
         | Inr (self', fr') \<Rightarrow>
             Inr (self', if position self' \<noteq> 0
                         then fr'\<lparr>v_entry_time := Some (name current_candle)\<rparr> else fr'))
      else Inr (self, fr))"

text \<open>
  The second half of the loop body: the call of \<open>process_trade\<close> when a position is
  open. Its arguments are read from the locals; the flag it returns is dropped.
\<close>

definition backtest_exit :: "ORBStrategy \<Rightarrow> frame \<Rightarrow> Candle \<Rightarrow> error + ORBStrategy" where
  "backtest_exit self fr current_candle =
     (if position self \<noteq> 0 then
        (case (v_entry_price fr, v_stop_loss fr, v_profit_target fr,
               v_position_size fr, v_entry_time fr) of
           (Some entry, Some stop, Some target, Some psize, Some entry_t) \<Rightarrow>
             Inr (snd (process_trade self current_candle entry stop target psize entry_t))
         | _ \<Rightarrow> Inl UnboundLocalError)
      else Inr self)"

definition backtest_step ::
  "ORBStrategy \<Rightarrow> frame \<Rightarrow> Candle \<Rightarrow> Candle \<Rightarrow> error + (ORBStrategy \<times> frame)" where
  "backtest_step self fr previous_candle current_candle =
     (case backtest_signal self fr previous_candle current_candle of
        Inl e \<Rightarrow> Inl e
      | Inr (self1, fr1) \<Rightarrow>
          (case backtest_exit self1 fr1 current_candle of
             Inl e \<Rightarrow> Inl e
           | Inr self2 \<Rightarrow> Inr (self2, fr1)))"

text \<open>
  \<open>for i in range(1, len(data))\<close> with \<open>data.iloc[i - 1]\<close> and \<open>data.iloc[i]\<close>: the
  head of the list is the previous candle, the next element the current one.
\<close>

fun backtest_loop ::
  "ORBStrategy \<Rightarrow> frame \<Rightarrow> Candle list \<Rightarrow> error + (ORBStrategy \<times> frame)" where
  "backtest_loop self fr (previous_candle # current_candle # rest) =
     (case backtest_step self fr previous_candle current_candle of
        Inl e \<Rightarrow> Inl e
      | Inr (self', fr') \<Rightarrow> backtest_loop self' fr' (current_candle # rest))"
| "backtest_loop self fr _ = Inr (self, fr)"

definition backtest :: "ORBStrategy \<Rightarrow> Candle list \<Rightarrow> error + (Trade list \<times> real)" where
  "backtest self data =
     (case backtest_loop self unbound data of
        Inl e \<Rightarrow> Inl e
      | Inr (self', fr') \<Rightarrow> Inr (trades self', capital self'))"

section \<open>Observations on a run\<close>

text \<open>
  The profit or loss that \<open>_close_trade\<close> books, written on the fields of the recorded
  trade; \<open>direction\<close> is the value of \<open>self.position\<close> at the close, \<open>1\<close> for a
  long and \<open>-1\<close> for a short position. The direction is not a field of \<open>Trade\<close>.
\<close>

definition trade_pnl :: "Trade \<Rightarrow> int \<Rightarrow> real" where
  "trade_pnl t direction =
     (exit_price t - entry_price t) * real_of_int (position_size t) * real_of_int direction"


section \<open>Evaluation of the engine on concrete inputs\<close>

lemmas engine_defs = backtest_def backtest_step_def backtest_signal_def backtest_exit_def
  process_trade_def close_trade_def calculate_position_size_def py_int_def
  ORBStrategy_init_def unbound_def time_of_def anchor_time_def Let_def


section \<open>One iteration of the loop\<close>

lemma signal_keeps_account:
  assumes "backtest_signal self fr prev cur = Inr (self1, fr1)"
  shows "trades self1 = trades self \<and> capital self1 = capital self"
  using assms
  by (auto simp: backtest_signal_def Let_def split: if_splits sum.splits)

lemma signal_entry_time:
  assumes "backtest_signal self fr prev cur = Inr (self1, fr1)"
  shows "v_entry_time fr1 = v_entry_time fr \<or> v_entry_time fr1 = Some (name cur)"
  using assms
  by (auto simp: backtest_signal_def Let_def split: if_splits sum.splits)

lemma process_trade_cases:
  assumes "process_trade self c entry stop target psize entry_t = (flag, self2)"
  shows "self2 = self
       \<or> (position self = 1 \<or> position self = - 1) \<and> position self2 = 0
         \<and> (\<exists>t. trades self2 = trades self @ [t]
               \<and> capital self2 = capital self + trade_pnl t (position self)
               \<and> entry_time t = entry_t \<and> exit_time t = name c)"
  using assms
  by (auto simp: process_trade_def close_trade_def trade_pnl_def Let_def split: if_splits)

lemma exit_cases:
  assumes "backtest_exit self1 fr1 cur = Inr self2"
  shows "self2 = self1
       \<or> (position self1 = 1 \<or> position self1 = - 1) \<and> position self2 = 0
         \<and> (\<exists>t. trades self2 = trades self1 @ [t]
               \<and> capital self2 = capital self1 + trade_pnl t (position self1)
               \<and> v_entry_time fr1 = Some (entry_time t) \<and> exit_time t = name cur)"
proof (cases "position self1 \<noteq> 0")
  case False
  with assms show ?thesis by (simp add: backtest_exit_def)
next
  case True
  with assms obtain entry stop target psize entry_t where
    fr: "v_entry_time fr1 = Some entry_t"
    and s2: "self2 = snd (process_trade self1 cur entry stop target psize entry_t)"
    by (auto simp: backtest_exit_def split: option.splits)
  obtain flag where "process_trade self1 cur entry stop target psize entry_t = (flag, self2)"
    using s2 by (cases "process_trade self1 cur entry stop target psize entry_t") simp
  from process_trade_cases [OF this] fr show ?thesis by auto
qed

lemma step_split:
  assumes "backtest_step self fr prev cur = Inr (self2, fr2)"
  obtains self1 where "backtest_signal self fr prev cur = Inr (self1, fr2)"
    and "backtest_exit self1 fr2 cur = Inr self2"
  using assms by (auto simp: backtest_step_def split: sum.splits)

lemma loop_snoc:
  "backtest_loop self fr (xs @ [p, c]) =
     (case backtest_loop self fr (xs @ [p]) of
        Inl e \<Rightarrow> Inl e
      | Inr (self1, fr1) \<Rightarrow> backtest_step self1 fr1 p c)"
proof (induction xs arbitrary: self fr)
  case Nil
  show ?case by (simp split: sum.splits)
next
  case (Cons x xs)
  show ?case
  proof (cases xs)
    case Nil
    then show ?thesis by (simp split: sum.splits)
  next
    case (Cons y ys)
    with Cons.IH show ?thesis by (simp split: sum.splits)
  qed
qed

lemma step_open_keeps_account:
  assumes "backtest_step self fr prev cur = Inr (self2, fr2)" and "position self2 \<noteq> 0"
  shows "trades self2 = trades self \<and> capital self2 = capital self"
proof -
  from assms(1) obtain self1 where
    sig: "backtest_signal self fr prev cur = Inr (self1, fr2)"
    and ex: "backtest_exit self1 fr2 cur = Inr self2"
    by (rule step_split)
  from exit_cases [OF ex] assms(2) have "self2 = self1" by auto
  with signal_keeps_account [OF sig] show ?thesis by simp
qed

section \<open>Position sizing\<close>



section \<open>Exit detection\<close>

text \<open>
  C3. When a long or a short position is open and the candle satisfies both the stop
  condition and the target condition, \<open>process_trade\<close> closes the trade at the stop
  price with result \<open>Loss\<close>: the stop is tested first in both branches.
\<close>

theorem process_trade_stop_priority:
  assumes "position self = 1 \<and> Low c \<le> stop \<and> High c \<ge> target
         \<or> position self = - 1 \<and> High c \<ge> stop \<and> Low c \<le> target"
  shows "process_trade self c entry stop target psize entry_t =
           (True, self\<lparr>capital := capital self
                          + (stop - entry) * real_of_int psize * real_of_int (position self),
                        position := 0,
                        trades := trades self @
                          [\<lparr>entry_price = entry, exit_price = stop, result = ''Loss'',
                            position_size = psize, entry_time = entry_t,
                            exit_time = name c\<rparr>]\<rparr>)"
  using assms by (auto simp: process_trade_def close_trade_def Let_def)

theorem process_trade_stop_priority_witness:
  "process_trade (ORBStrategy_init ''X'' 1000 (1 / 100)\<lparr>position := 1\<rparr>)
      \<lparr>name = 34800, Open = 100, High = 140, Low = 90, Close = 120\<rparr> 102 99 132 3 34500
    = (True, ORBStrategy_init ''X'' 1000 (1 / 100)
         \<lparr>capital := 991, position := 0,
          trades := [\<lparr>entry_price = 102, exit_price = 99, result = ''Loss'',
                      position_size = 3, entry_time = 34500, exit_time = 34800\<rparr>]\<rparr>)"
  using process_trade_stop_priority [of "ORBStrategy_init ''X'' 1000 (1 / 100)\<lparr>position := 1\<rparr>"
      "\<lparr>name = 34800, Open = 100, High = 140, Low = 90, Close = 120\<rparr>" 99 132 102 3 34500]
  by (simp add: ORBStrategy_init_def)

section \<open>Signal detection\<close>




text \<open>
  C5 asks that a session whose risk is zero is skipped. The run below has a bearish
  candle before 09:35 and opens at its high; it ends with the sizer's exception and
  returns neither trades nor capital.
\<close>

theorem backtest_zero_risk_raises:
  "backtest (ORBStrategy_init ''X'' 25000 (1 / 100))
      [\<lparr>name = 34200, Open = 102, High = 103, Low = 99, Close = 100\<rparr>,
       \<lparr>name = 34500, Open = 103, High = 104, Low = 98, Close = 101\<rparr>,
       \<lparr>name = 34800, Open = 101, High = 102, Low = 100, Close = 101\<rparr>]
    = Inl SizingError"
  by (simp add: engine_defs)








section \<open>Construction\<close>

lemma loop_flat_no_anchor:
  assumes "position self = 0" and "\<forall>c\<in>set (tl data). time_of (name c) \<noteq> anchor_time"
  shows "backtest_loop self fr data = Inr (self, fr)"
  using assms
proof (induction self fr data rule: backtest_loop.induct)
  case (1 self fr p c rest)
  then have "backtest_step self fr p c = Inr (self, fr)"
    by (simp add: backtest_step_def backtest_signal_def backtest_exit_def)
  with 1 show ?case by simp
qed simp_all

text \<open>
  C10, as the code has it. The constructor checks nothing: whatever the initial capital
  and the risk fraction are, it stores them, starts flat with the capital equal to the
  initial capital and an empty trade log, and \<open>backtest\<close> runs on that engine; on a
  series with no candle at 09:35 after the first it returns the empty log and the
  initial capital.
\<close>

theorem init_accepts_any_configuration:
  "capital (ORBStrategy_init ticker init_cap risk_pct) = init_cap
   \<and> initial_capital (ORBStrategy_init ticker init_cap risk_pct) = init_cap
   \<and> risk_percent (ORBStrategy_init ticker init_cap risk_pct) = risk_pct
   \<and> position (ORBStrategy_init ticker init_cap risk_pct) = 0
   \<and> trades (ORBStrategy_init ticker init_cap risk_pct) = []
   \<and> ((\<forall>c\<in>set (tl data). time_of (name c) \<noteq> anchor_time) \<longrightarrow>
        backtest (ORBStrategy_init ticker init_cap risk_pct) data = Inr ([], init_cap))"
proof -
  have "backtest (ORBStrategy_init ticker init_cap risk_pct) data = Inr ([], init_cap)"
    if "\<forall>c\<in>set (tl data). time_of (name c) \<noteq> anchor_time"
    using loop_flat_no_anchor [OF _ that, of "ORBStrategy_init ticker init_cap risk_pct" unbound]
    by (simp add: backtest_def ORBStrategy_init_def)
  then show ?thesis by (simp add: ORBStrategy_init_def)
qed

theorem init_accepts_any_configuration_witness:
  "capital (ORBStrategy_init ''X'' (- 5) 2) = - 5
   \<and> risk_percent (ORBStrategy_init ''X'' (- 5) 2) = 2
   \<and> backtest (ORBStrategy_init ''X'' (- 5) 2)
       [\<lparr>name = 34200, Open = 100, High = 103, Low = 99, Close = 102\<rparr>,
        \<lparr>name = 34800, Open = 102, High = 104, Low = 98, Close = 103\<rparr>] = Inr ([], - 5)"
  using init_accepts_any_configuration [of "''X''" "- 5" 2
       "[\<lparr>name = 34200, Open = 100, High = 103, Low = 99, Close = 102\<rparr>,
        \<lparr>name = 34800, Open = 102, High = 104, Low = 98, Close = 103\<rparr>]"]
  by (simp add: time_of_def anchor_time_def)

text \<open>
  The claim C10 as it is written: an engine built with the capital \<open>-5\<close> and the risk
  fraction \<open>2\<close> runs the backtest and returns a trade and a capital.
\<close>

theorem no_validation_counterexample:
  "backtest (ORBStrategy_init ''X'' (- 5) 2)
      [\<lparr>name = 34200, Open = 100, High = 103, Low = 99, Close = 102\<rparr>,
       \<lparr>name = 34500, Open = 102, High = 104, Low = 98, Close = 103\<rparr>]
    = Inr ([\<lparr>entry_price = 102, exit_price = 99, result = ''Loss'', position_size = - 3,
             entry_time = 34500, exit_time = 34500\<rparr>], 4)"
  by (simp add: engine_defs)

section \<open>The whole run\<close>




lemma loop_ordering:
  assumes "backtest_loop self fr (p # rest) = Inr (self', fr')"
    and "sorted (map name (p # rest))"
    and "\<forall>t\<in>set (trades self). entry_time t \<le> exit_time t"
    and "\<forall>et. v_entry_time fr = Some et \<longrightarrow> et \<le> name p"
  shows "\<forall>t\<in>set (trades self'). entry_time t \<le> exit_time t"
  using assms
proof (induction rest arbitrary: self fr p)
  case Nil
  then show ?case by simp
next
  case (Cons c rest)
  from Cons.prems(1) obtain self2 fr2 where
    step: "backtest_step self fr p c = Inr (self2, fr2)"
    and rest: "backtest_loop self2 fr2 (c # rest) = Inr (self', fr')"
    by (auto split: sum.splits)
  from step obtain self1 where
    sig: "backtest_signal self fr p c = Inr (self1, fr2)"
    and ex: "backtest_exit self1 fr2 c = Inr self2"
    by (rule step_split)
  from Cons.prems(2) have pc: "name p \<le> name c" and srt: "sorted (map name (c # rest))"
    by simp_all
  have et: "\<forall>et. v_entry_time fr2 = Some et \<longrightarrow> et \<le> name c"
    using signal_entry_time [OF sig] Cons.prems(4) pc by auto
  have "\<forall>t\<in>set (trades self2). entry_time t \<le> exit_time t"
    using exit_cases [OF ex] signal_keeps_account [OF sig] Cons.prems(3) et by auto
  from Cons.IH [OF rest srt this et] show ?case .
qed

text \<open>
  C7, as the code has it. When the time stamps of the series do not decrease, every
  trade of the returned log has an entry time that is not later than its exit time.
  The two can be equal: the exit test already runs on the candle that opens the
  position.
\<close>

theorem entry_not_after_exit:
  assumes "backtest (ORBStrategy_init ticker init_cap risk_pct) data = Inr (ts, cap)"
    and "sorted (map name data)"
  shows "\<forall>t\<in>set ts. entry_time t \<le> exit_time t"
proof (cases data)
  case Nil
  with assms(1) show ?thesis by (simp add: backtest_def ORBStrategy_init_def)
next
  case (Cons p rest)
  from assms(1) obtain self' fr' where
    loop: "backtest_loop (ORBStrategy_init ticker init_cap risk_pct) unbound (p # rest)
             = Inr (self', fr')"
    and ts: "ts = trades self'"
    unfolding Cons by (auto simp: backtest_def split: sum.splits)
  have "\<forall>t\<in>set (trades self'). entry_time t \<le> exit_time t"
    using assms(2) unfolding Cons
    by (intro loop_ordering [OF loop]) (simp_all add: ORBStrategy_init_def unbound_def)
  with ts show ?thesis by simp
qed

theorem entry_not_after_exit_witness:
  "backtest (ORBStrategy_init ''X'' 25000 (1 / 100))
      [\<lparr>name = 34200, Open = 102, High = 103, Low = 99, Close = 100\<rparr>,
       \<lparr>name = 34500, Open = 100, High = 101, Low = 99, Close = 100\<rparr>,
       \<lparr>name = 34800, Open = 100, High = 103, Low = 99, Close = 102\<rparr>]
    = Inr ([\<lparr>entry_price = 100, exit_price = 103, result = ''Loss'', position_size = 83,
             entry_time = 34500, exit_time = 34800\<rparr>], 24751)
   \<and> (34500 :: int) \<le> 34800"
proof -
  have run: "backtest (ORBStrategy_init ''X'' 25000 (1 / 100))
      [\<lparr>name = 34200, Open = 102, High = 103, Low = 99, Close = 100\<rparr>,
       \<lparr>name = 34500, Open = 100, High = 101, Low = 99, Close = 100\<rparr>,
       \<lparr>name = 34800, Open = 100, High = 103, Low = 99, Close = 102\<rparr>]
    = Inr ([\<lparr>entry_price = 100, exit_price = 103, result = ''Loss'', position_size = 83,
             entry_time = 34500, exit_time = 34800\<rparr>], 24751)"
    by (simp add: engine_defs)
  have srt: "sorted (map name
      [\<lparr>name = 34200, Open = 102, High = 103, Low = 99, Close = (100::real)\<rparr>,
       \<lparr>name = 34500, Open = 100, High = 101, Low = 99, Close = 100\<rparr>,
       \<lparr>name = 34800, Open = 100, High = 103, Low = 99, Close = 102\<rparr>])"
    by simp
  from entry_not_after_exit [OF run srt] run show ?thesis by simp
qed

text \<open>
  The claim C7 as it is written: the candle at 09:35 opens a long position and its low
  is already under the stop, so the trade is closed on that candle and its exit time
  equals its entry time.
\<close>

theorem same_bar_exit_counterexample:
  "backtest (ORBStrategy_init ''X'' 25000 (1 / 100))
      [\<lparr>name = 34200, Open = 100, High = 103, Low = 99, Close = 102\<rparr>,
       \<lparr>name = 34500, Open = 102, High = 104, Low = 98, Close = 103\<rparr>]
    = Inr ([\<lparr>entry_price = 102, exit_price = 99, result = ''Loss'', position_size = 83,
             entry_time = 34500, exit_time = 34500\<rparr>], 24751)"
  by (simp add: engine_defs)

text \<open>
  C9. If the engine holds a position after each candle of a tail of the series, in
  particular after the last one, then \<open>backtest\<close> returns the trade log and the
  capital that it returns for the series without that tail: the position that is open
  at the end adds no trade and no profit or loss.
\<close>

theorem open_position_not_closed_at_end:
  assumes "pre \<noteq> []"
    and "\<forall>k\<in>{1..length post}. \<exists>s f.
           backtest_loop self unbound (pre @ take k post) = Inr (s, f) \<and> position s \<noteq> 0"
  shows "backtest self (pre @ post) = backtest self pre"
  using assms(2)
proof (induction post rule: rev_induct)
  case Nil
  show ?case by simp
next
  case (snoc b ps)
  have "\<forall>k\<in>{1..length ps}. \<exists>s f.
           backtest_loop self unbound (pre @ take k ps) = Inr (s, f) \<and> position s \<noteq> 0"
  proof
    fix k assume k: "k \<in> {1..length ps}"
    then have "k \<in> {1..length (ps @ [b])}" by simp
    from snoc.prems [rule_format, OF this] k
    show "\<exists>s f. backtest_loop self unbound (pre @ take k ps) = Inr (s, f) \<and> position s \<noteq> 0"
      by simp
  qed
  from snoc.IH [OF this] have ih: "backtest self (pre @ ps) = backtest self pre" .
  have "length (ps @ [b]) \<in> {1..length (ps @ [b])}" by simp
  from snoc.prems [rule_format, OF this] obtain s f where
    fin: "backtest_loop self unbound (pre @ ps @ [b]) = Inr (s, f)" and op: "position s \<noteq> 0"
    by auto
  from assms(1) have "pre @ ps \<noteq> []" by simp
  then obtain ys p where ys: "pre @ ps = ys @ [p]"
    by (metis rev_exhaust)
  then have eq: "pre @ ps @ [b] = ys @ [p, b]"
    by (metis append.assoc append_Cons append_Nil)
  from fin obtain s0 f0 where
    l0: "backtest_loop self unbound (ys @ [p]) = Inr (s0, f0)"
    and st: "backtest_step s0 f0 p b = Inr (s, f)"
    unfolding eq loop_snoc by (auto split: sum.splits)
  from step_open_keeps_account [OF st op] have "trades s = trades s0" "capital s = capital s0"
    by simp_all
  then have "backtest self (pre @ ps @ [b]) = backtest self (pre @ ps)"
    using fin l0 unfolding ys [symmetric] backtest_def
    by (simp add: ys)
  with ih show ?case by simp
qed

theorem open_position_not_closed_at_end_witness:
  "backtest (ORBStrategy_init ''X'' 25000 (1 / 100))
      ([\<lparr>name = 34200, Open = 100, High = 103, Low = 99, Close = 102\<rparr>] @
       [\<lparr>name = 34500, Open = 102, High = 104, Low = 101, Close = 103\<rparr>,
        \<lparr>name = 34800, Open = 103, High = 120, Low = 102, Close = 119\<rparr>])
    = backtest (ORBStrategy_init ''X'' 25000 (1 / 100))
       [\<lparr>name = 34200, Open = 100, High = 103, Low = 99, Close = 102\<rparr>]
   \<and> backtest (ORBStrategy_init ''X'' 25000 (1 / 100))
       [\<lparr>name = 34200, Open = 100, High = 103, Low = 99, Close = 102\<rparr>] = Inr ([], 25000)"
proof -
  have "\<forall>k\<in>{1..length [\<lparr>name = 34500, Open = 102, High = 104, Low = 101, Close = 103\<rparr>,
        \<lparr>name = 34800, Open = 103, High = 120, Low = 102, Close = (119::real)\<rparr>]}. \<exists>s f.
      backtest_loop (ORBStrategy_init ''X'' 25000 (1 / 100)) unbound
        ([\<lparr>name = 34200, Open = 100, High = 103, Low = 99, Close = 102\<rparr>] @
         take k [\<lparr>name = 34500, Open = 102, High = 104, Low = 101, Close = 103\<rparr>,
                 \<lparr>name = 34800, Open = 103, High = 120, Low = 102, Close = 119\<rparr>])
        = Inr (s, f) \<and> position s \<noteq> 0"
  proof
    fix k :: nat
    assume "k \<in> {1..length [\<lparr>name = 34500, Open = 102, High = 104, Low = 101, Close = 103\<rparr>,
        \<lparr>name = 34800, Open = 103, High = 120, Low = 102, Close = (119::real)\<rparr>]}"
    then have "k = 1 \<or> k = 2" by auto
    then show "\<exists>s f.
      backtest_loop (ORBStrategy_init ''X'' 25000 (1 / 100)) unbound
        ([\<lparr>name = 34200, Open = 100, High = 103, Low = 99, Close = 102\<rparr>] @
         take k [\<lparr>name = 34500, Open = 102, High = 104, Low = 101, Close = 103\<rparr>,
                 \<lparr>name = 34800, Open = 103, High = 120, Low = 102, Close = 119\<rparr>])
        = Inr (s, f) \<and> position s \<noteq> 0"
      by (auto simp: engine_defs numeral_2_eq_2)
  qed
  from open_position_not_closed_at_end [OF _ this] show ?thesis
    by (simp add: backtest_def unbound_def ORBStrategy_init_def)
qed

end
